theory Spec2Isabelle
  imports Complex_Main
begin

section \<open>Python values\<close>

text \<open>
  The facade of \<^verbatim>\<open>pyfiles/milvus_utils.py\<close> is dynamically typed: every public
  method accepts arbitrary Python objects and checks their shape at run time with the
  models of \<^verbatim>\<open>validators/milvus_types.py\<close>. The values that reach it are modelled
  by one datatype. A \<open>PDict\<close> is an association list in insertion order; a \<open>PFloat\<close>
  is a finite float, identified with the number its literal denotes; \<open>PBytes s\<close> is a
  bytes object whose UTF-8 decoding is \<open>s\<close>; \<open>PObj c xs\<close> is an instance of the
  library class \<open>c\<close> whose iteration yields \<open>xs\<close> (a \<open>SearchResult\<close> iterates
  over its \<open>HybridHits\<close>, which iterate over their \<open>Hit\<close>s).
\<close>

datatype pyclass =
    MilvusClient | CollectionSchema | IndexParams | Function
  | SearchResult | HybridHits | Hit | OtherClass string

datatype pyval =
    PNone
  | PBool bool
  | PInt int
  | PFloat rat
  | PStr string
  | PBytes string
  | PList "pyval list"
  | PTuple "pyval list"
  | PSet "pyval list"
  | PDict "(pyval \<times> pyval) list"
  | PObj pyclass "pyval list"

type_synonym kwargs = "(string \<times> pyval) list"

text \<open>\<^verbatim>\<open>isinstance(v, str)\<close>, \<^verbatim>\<open>isinstance(v, dict)\<close>,
  \<^verbatim>\<open>isinstance(v, int)\<close> (\<^verbatim>\<open>bool\<close> is a subclass of \<^verbatim>\<open>int\<close>) and
  \<^verbatim>\<open>isinstance(v, C)\<close> for a library class \<^verbatim>\<open>C\<close>.\<close>

fun isinstance_str :: "pyval \<Rightarrow> bool" where
  "isinstance_str (PStr s) = True"
| "isinstance_str v = False"

fun isinstance_dict :: "pyval \<Rightarrow> bool" where
  "isinstance_dict (PDict d) = True"
| "isinstance_dict v = False"

fun isinstance_int :: "pyval \<Rightarrow> bool" where
  "isinstance_int (PInt n) = True"
| "isinstance_int (PBool b) = True"
| "isinstance_int v = False"

fun isinstance_of :: "pyclass \<Rightarrow> pyval \<Rightarrow> bool" where
  "isinstance_of c (PObj c' xs) = (c' = c)"
| "isinstance_of c v = False"

section \<open>Exceptions, events and the remote service\<close>

text \<open>
  \<open>ValidationError fs\<close> is pydantic's error, raised by a model whose fields \<open>fs\<close>
  were rejected by the annotation-driven validation; \<open>TypeError\<close> and
  \<open>ValueError\<close> are the errors the source raises itself (the string is the static
  part of the message); \<open>MilvusException\<close> stands for whatever the remote client
  raises.
\<close>

datatype exn =
    ValidationError "string list"
  | TypeError string
  | ValueError string
  | MilvusException string

text \<open>The claims call both kinds of shape error a type-validation error.\<close>

fun type_validation_error :: "exn \<Rightarrow> bool" where
  "type_validation_error (ValidationError fs) = True"
| "type_validation_error (TypeError m) = True"
| "type_validation_error e = False"

text \<open>
  Every call that leaves the facade, with the keyword arguments it is given. The receiver
  of \<open>AddField\<close> and \<open>AddFunction\<close> is the schema object, that of \<open>AddIndex\<close> the
  index-parameters object; all other calls go to the client handle.
\<close>

datatype call =
    Connect kwargs
  | ListCollections
  | CreateSchema kwargs
  | AddField pyval kwargs
  | AddFunction pyval pyval
  | PrepareIndexParams
  | AddIndex pyval kwargs
  | CreateCollection kwargs
  | DropCollection kwargs
  | Insert kwargs
  | Delete kwargs
  | Search kwargs

datatype level = INFO | ERROR

datatype event =
    Remote call
  | Log level string
  | Sleep rat

text \<open>
  The remote service (or a mock of it) answers a call with a value or an exception; the
  answer may depend on everything that happened before, which is the trace of events.
  A program of the facade takes the trace so far and returns its outcome and the
  extended trace.
\<close>

type_synonym remote = "event list \<Rightarrow> call \<Rightarrow> exn + pyval"

type_synonym 'a prog = "event list \<Rightarrow> (exn + 'a) \<times> event list"

definition ret :: "'a \<Rightarrow> 'a prog" where
  "ret x tr = (Inr x, tr)"

definition raise :: "exn \<Rightarrow> 'a prog" where
  "raise e tr = (Inl e, tr)"

definition bnd :: "'a prog \<Rightarrow> ('a \<Rightarrow> 'b prog) \<Rightarrow> 'b prog" where
  "bnd m f tr = (case m tr of (Inl e, tr') \<Rightarrow> (Inl e, tr') | (Inr x, tr') \<Rightarrow> f x tr')"

definition logger_info :: "string \<Rightarrow> unit prog" where
  "logger_info msg tr = (Inr (), tr @ [Log INFO msg])"

definition logger_error :: "string \<Rightarrow> unit prog" where
  "logger_error msg tr = (Inr (), tr @ [Log ERROR msg])"

definition time_sleep :: "rat \<Rightarrow> unit prog" where
  "time_sleep d tr = (Inr (), tr @ [Sleep d])"

definition remote_call :: "remote \<Rightarrow> call \<Rightarrow> pyval prog" where
  "remote_call R c tr = (R tr c, tr @ [Remote c])"

text \<open>\<^verbatim>\<open>try: body  except Exception as e: handler(e)\<close>\<close>

definition try_except :: "'a prog \<Rightarrow> (exn \<Rightarrow> 'a prog) \<Rightarrow> 'a prog" where
  "try_except body handler tr =
     (case body tr of (Inl e, tr') \<Rightarrow> handler e tr' | (Inr x, tr') \<Rightarrow> (Inr x, tr'))"

text \<open>The remote calls of a trace, in order.\<close>

fun remote_calls :: "event list \<Rightarrow> call list" where
  "remote_calls [] = []"
| "remote_calls (Remote c # tr) = c # remote_calls tr"
| "remote_calls (ev # tr) = remote_calls tr"

section \<open>Python iteration, membership and keyword expansion\<close>

text \<open>\<^verbatim>\<open>for x in v\<close>: the items of a list, tuple or set, the keys of a dict, the
  characters of a string, the items of a library container; other values are not
  iterable.\<close>

fun py_iter :: "pyval \<Rightarrow> exn + pyval list" where
  "py_iter (PList xs) = Inr xs"
| "py_iter (PTuple xs) = Inr xs"
| "py_iter (PSet xs) = Inr xs"
| "py_iter (PDict d) = Inr (map fst d)"
| "py_iter (PStr s) = Inr (map (\<lambda>c. PStr [c]) s)"
| "py_iter (PBytes s) = Inr (map (\<lambda>c. PInt (int (of_char c))) s)"
| "py_iter (PObj c xs) = Inr xs"
| "py_iter v = Inl (TypeError ''object is not iterable'')"

text \<open>\<^verbatim>\<open>name in collections\<close>, for a container of collection names. The facade
  only evaluates it with a name and a container that passed validation, where Python's
  \<^verbatim>\<open>==\<close> is equality of the modelled values.\<close>

definition py_in :: "pyval \<Rightarrow> pyval \<Rightarrow> exn + bool" where
  "py_in x v = (case py_iter v of Inl e \<Rightarrow> Inl e | Inr xs \<Rightarrow> Inr (x \<in> set xs))"

text \<open>\<^verbatim>\<open>f(**params)\<close>: the mapping is expanded into keyword arguments, in order;
  Python raises a \<^verbatim>\<open>TypeError\<close> before the call when \<^verbatim>\<open>params\<close> is not a
  mapping or a key is not a string.\<close>

fun keyword :: "pyval \<times> pyval \<Rightarrow> (string \<times> pyval) option" where
  "keyword (PStr k, v) = Some (k, v)"
| "keyword (k, v) = None"

fun expand_kwargs :: "pyval \<Rightarrow> exn + kwargs" where
  "expand_kwargs (PDict d) =
     (case those (map keyword d) of
        None \<Rightarrow> Inl (TypeError ''keywords must be strings'')
      | Some kw \<Rightarrow> Inr kw)"
| "expand_kwargs v = Inl (TypeError ''argument after ** must be a mapping'')"

definition lift :: "exn + 'a \<Rightarrow> 'a prog" where
  "lift r tr = (r, tr)"

section \<open>Validation models (\<^verbatim>\<open>validators/milvus_types.py\<close>)\<close>

subsection \<open>What \<^verbatim>\<open>BaseModel\<close> does with a field\<close>

text \<open>
  Each model is a pydantic (version 2) \<^verbatim>\<open>BaseModel\<close>: a field has a type
  annotation and a \<^verbatim>\<open>field_validator\<close> in the default mode \<^verbatim>\<open>after\<close>.
  Constructing the model validates the fields in the order they are declared. For each
  field, pydantic first validates the input against the annotation, in its default lax
  mode; when that fails the field is recorded as invalid and the validator of the source
  is not run; when it succeeds, the validator of the source runs on the value pydantic
  produced. A \<^verbatim>\<open>TypeError\<close> raised by a validator is not collected: it
  propagates at once. After the last field, a \<^verbatim>\<open>ValidationError\<close> is raised
  when some field was recorded as invalid. The model object is then discarded by the
  facade, which goes on with the arguments it was given.

  Lax validation against an annotation, as pydantic documents it in its conversion table
  for Python input:
  \<^item> \<^verbatim>\<open>Any\<close> accepts every value;
  \<^item> \<^verbatim>\<open>str\<close> accepts a string, and decodes \<^verbatim>\<open>bytes\<close>;
  \<^item> \<^verbatim>\<open>int\<close> accepts an integer and a boolean, and the other values the
    library's own parser reads as an integer;
  \<^item> \<^verbatim>\<open>dict\<close> accepts a dictionary;
  \<^item> \<^verbatim>\<open>List[T]\<close> accepts a list, a tuple or a set whose items all validate
    against \<^verbatim>\<open>T\<close>, and produces a list;
  \<^item> \<^verbatim>\<open>T | None\<close> accepts \<^verbatim>\<open>None\<close> and whatever \<^verbatim>\<open>T\<close> accepts.
\<close>

definition core_any :: "pyval \<Rightarrow> pyval option" where
  "core_any v = Some v"

fun core_str :: "pyval \<Rightarrow> pyval option" where
  "core_str (PStr s) = Some (PStr s)"
| "core_str (PBytes s) = Some (PStr s)"
| "core_str v = None"

text \<open>
  Lax validation against \<^verbatim>\<open>int\<close>: an integer is accepted as it is and a boolean as
  0 or 1. Which other values the library reads as an integer (floats without a fractional
  part, numeric strings and bytes) is decided by its own parser, which is not part of the
  repository: that reading is the parameter \<open>lax_int\<close>.
\<close>

fun core_int :: "(pyval \<Rightarrow> int option) \<Rightarrow> pyval \<Rightarrow> pyval option" where
  "core_int lax_int (PInt n) = Some (PInt n)"
| "core_int lax_int (PBool b) = Some (PInt (if b then 1 else 0))"
| "core_int lax_int v = map_option PInt (lax_int v)"

fun core_dict :: "pyval \<Rightarrow> pyval option" where
  "core_dict (PDict d) = Some (PDict d)"
| "core_dict v = None"

fun sequence_items :: "pyval \<Rightarrow> pyval list option" where
  "sequence_items (PList xs) = Some xs"
| "sequence_items (PTuple xs) = Some xs"
| "sequence_items (PSet xs) = Some xs"
| "sequence_items v = None"

definition core_list :: "(pyval \<Rightarrow> pyval option) \<Rightarrow> pyval \<Rightarrow> pyval option" where
  "core_list item v =
     (case sequence_items v of
        None \<Rightarrow> None
      | Some xs \<Rightarrow> map_option PList (those (map item xs)))"

fun core_nullable :: "(pyval \<Rightarrow> pyval option) \<Rightarrow> pyval \<Rightarrow> pyval option" where
  "core_nullable item PNone = Some PNone"
| "core_nullable item v = item v"

text \<open>A field: its name, the validation its annotation stands for, and its
  \<^verbatim>\<open>field_validator\<close>, which answers with the message of the \<^verbatim>\<open>TypeError\<close> it
  raises (after logging that message as an error), or with nothing.\<close>

type_synonym field = "string \<times> (pyval \<Rightarrow> pyval option) \<times> (pyval \<Rightarrow> string option)"

fun validate_fields :: "string list \<Rightarrow> (field \<times> pyval) list \<Rightarrow> unit prog" where
  "validate_fields bad [] = (if bad = [] then ret () else raise (ValidationError bad))"
| "validate_fields bad (((nm, core, validator), v) # fs) =
     (case core v of
        None \<Rightarrow> validate_fields (bad @ [nm]) fs
      | Some w \<Rightarrow>
          (case validator w of
             Some msg \<Rightarrow> bnd (logger_error msg) (\<lambda>_. raise (TypeError msg))
           | None \<Rightarrow> validate_fields bad fs))"

definition BaseModel :: "(field \<times> pyval) list \<Rightarrow> unit prog" where
  "BaseModel fs = validate_fields [] fs"

subsection \<open>The validators of the source\<close>

text \<open>\<^verbatim>\<open>if not isinstance(v, T): log, raise TypeError(msg)\<close>\<close>

definition check_instance :: "(pyval \<Rightarrow> bool) \<Rightarrow> string \<Rightarrow> pyval \<Rightarrow> string option" where
  "check_instance isinst msg v = (if \<not> isinst v then Some msg else None)"

text \<open>\<^verbatim>\<open>if not isinstance(v, list): ...  if not all(isinstance(item, T) for item in v): ...\<close>
  with the two messages; only a \<open>PList\<close> is an instance of \<^verbatim>\<open>list\<close>.\<close>

fun check_list_of :: "(pyval \<Rightarrow> bool) \<Rightarrow> string \<Rightarrow> string \<Rightarrow> pyval \<Rightarrow> string option" where
  "check_list_of isinst msg msg_item (PList xs) =
     (if \<not> list_all isinst xs then Some msg_item else None)"
| "check_list_of isinst msg msg_item v = Some msg"

text \<open>The validator \<^verbatim>\<open>validate_name\<close>, which five models repeat word for word.\<close>

definition validate_name :: "pyval \<Rightarrow> string option" where
  "validate_name = check_instance isinstance_str ''The name argument should be a string''"

definition InitClientParams :: "pyval \<Rightarrow> unit prog" where
  "InitClientParams uri =
     BaseModel
       [((''uri'', core_str,
          check_instance isinstance_str ''The uri argument should be a string''), uri)]"

definition InitClientResults :: "pyval \<Rightarrow> unit prog" where
  "InitClientResults results =
     BaseModel
       [((''results'', core_any,
          check_instance (isinstance_of MilvusClient)
            ''The results from the _init_client method should be a MilvusClient''), results)]"

definition CreateFieldParams :: "pyval \<Rightarrow> pyval \<Rightarrow> unit prog" where
  "CreateFieldParams collection_schema params =
     BaseModel
       [((''collection_schema'', core_any,
          check_instance (isinstance_of CollectionSchema)
            ''The argument schema should be a CollectionSchema''), collection_schema),
        ((''params'', core_dict,
          check_instance isinstance_dict
            ''The argument params should be a dictionary''), params)]"

definition CreateIndexParams :: "pyval \<Rightarrow> pyval \<Rightarrow> unit prog" where
  "CreateIndexParams index_params params =
     BaseModel
       [((''index_params'', core_any,
          check_instance (isinstance_of IndexParams)
            ''The index_params argument should be an IndexParams''), index_params),
        ((''params'', core_dict,
          check_instance isinstance_dict
            ''The params argument should be an dictionary''), params)]"

definition ListCollectionsResults :: "pyval \<Rightarrow> unit prog" where
  "ListCollectionsResults results =
     BaseModel
       [((''results'', core_list (core_nullable core_str),
          check_list_of isinstance_str
            ''The results from the list_collections method should be a List[str | None]''
            ''Each item in the collections list should be a string''), results)]"

definition CreateCollectionParams :: "pyval \<Rightarrow> pyval \<Rightarrow> pyval \<Rightarrow> pyval \<Rightarrow> unit prog" where
  "CreateCollectionParams name field_params_list func_list index_params_list =
     BaseModel
       [((''name'', core_str, validate_name), name),
        ((''field_params_list'', core_list core_dict,
          check_list_of isinstance_dict
            ''The field_params_list argument should be a List[dict]''
            ''Each item in field_params_list should be a dictionary''), field_params_list),
        ((''func_list'', core_list core_any,
          check_list_of (isinstance_of Function)
            ''The func_list argument should be a List[Function]''
            ''Each item in func_list should be a Function''), func_list),
        ((''index_params_list'', core_list core_dict,
          check_list_of isinstance_dict
            ''The index_params_list argument should be a List[dict]''
            ''Each item in index_params_list should be a dictionary''), index_params_list)]"

definition DropCollectionParams :: "pyval \<Rightarrow> unit prog" where
  "DropCollectionParams name = BaseModel [((''name'', core_str, validate_name), name)]"

definition InsertParams :: "pyval \<Rightarrow> pyval \<Rightarrow> unit prog" where
  "InsertParams name data =
     BaseModel
       [((''name'', core_str, validate_name), name),
        ((''data'', core_list core_dict,
          check_list_of isinstance_dict
            ''The data argument should be a List[dict]''
            ''Each item in data should be a dictionary''), data)]"

definition InsertResults :: "pyval \<Rightarrow> unit prog" where
  "InsertResults results =
     BaseModel
       [((''results'', core_dict,
          check_instance isinstance_dict
            ''Results from the insert method should be a dictionary''), results)]"

definition DeleteParams :: "pyval \<Rightarrow> pyval \<Rightarrow> unit prog" where
  "DeleteParams name ids =
     BaseModel
       [((''name'', core_str, validate_name), name),
        ((''ids'', core_list core_str,
          check_list_of isinstance_str
            ''The data argument should be a List[str]''
            ''Each item in data should be a string''), ids)]"

definition FullTextSearchParams ::
  "(pyval \<Rightarrow> int option) \<Rightarrow> pyval \<Rightarrow> pyval \<Rightarrow> pyval \<Rightarrow> unit prog" where
  "FullTextSearchParams lax_int name query_list limit =
     BaseModel
       [((''name'', core_str, validate_name), name),
        ((''query_list'', core_list core_str,
          check_list_of isinstance_str
            ''The query_list argument should be a List[str]''
            ''Each item in query_list should be a string''), query_list),
        ((''limit'', core_int lax_int,
          check_instance isinstance_int
            ''The limit argument should be an integer''), limit)]"

text \<open>The validator of \<^verbatim>\<open>FullTextSearchResults\<close>: the result is a
  \<^verbatim>\<open>SearchResult\<close>, each of its items a \<^verbatim>\<open>HybridHits\<close>, each item of those a
  \<^verbatim>\<open>Hit\<close>.\<close>

fun all_hits :: "pyval \<Rightarrow> bool" where
  "all_hits (PObj c hits) = list_all (isinstance_of Hit) hits"
| "all_hits v = False"

fun validate_search_results :: "pyval \<Rightarrow> string option" where
  "validate_search_results (PObj c items) =
     (if c \<noteq> SearchResult
        then Some ''Full text search results should be a SearchResult''
      else if \<not> list_all (isinstance_of HybridHits) items
        then Some ''Each item in the list of results should be a HybridHits''
      else if \<not> list_all all_hits items
        then Some ''Each item in the list of result should be a Hit''
      else None)"
| "validate_search_results v = Some ''Full text search results should be a SearchResult''"

definition FullTextSearchResults :: "pyval \<Rightarrow> unit prog" where
  "FullTextSearchResults results =
     BaseModel [((''results'', core_any, validate_search_results), results)]"

section \<open>The facade (\<^verbatim>\<open>pyfiles/milvus_utils.py\<close>, class \<^verbatim>\<open>MilvusClientInit\<close>)\<close>

text \<open>
  Each method is translated statement by statement. Log messages are abbreviated to
  their static text; \<^verbatim>\<open>with_spinner\<close>, a progress display, is left out. The
  methods take the remote service \<open>R\<close> that the handle \<^verbatim>\<open>self.client\<close> talks to;
  \<^verbatim>\<open>full_text_search\<close> also takes the library's reading of values as integers,
  which validates its \<^verbatim>\<open>limit\<close>.
\<close>

record facade =
  self_uri :: pyval
  self_client :: pyval

definition init_client :: "remote \<Rightarrow> pyval \<Rightarrow> pyval prog" where
  "init_client R uri =
     bnd (logger_info ''Starting Milvus client on URI'') (\<lambda>_.
     try_except
       (bnd (remote_call R (Connect [(''uri'', uri)])) (\<lambda>client.
        bnd (InitClientResults client) (\<lambda>_.
        bnd (logger_info ''Milvus client connected'') (\<lambda>_.
        ret client))))
       (\<lambda>e. bnd (logger_error ''Problem connecting to Milvus client'') (\<lambda>_. raise e)))"

text \<open>\<^verbatim>\<open>__init__(self, uri, client=None)\<close>\<close>

definition MilvusClientInit :: "remote \<Rightarrow> pyval \<Rightarrow> pyval \<Rightarrow> facade prog" where
  "MilvusClientInit R uri client =
     bnd (InitClientParams uri) (\<lambda>_.
     try_except
       (if client = PNone
          then bnd (init_client R uri) (\<lambda>c. ret \<lparr>self_uri = uri, self_client = c\<rparr>)
        else bnd (InitClientResults client) (\<lambda>_.
             ret \<lparr>self_uri = uri, self_client = client\<rparr>))
       (\<lambda>e. bnd (logger_info ''Problem initializing Milvus client'') (\<lambda>_. raise e)))"

text \<open>\<^verbatim>\<open>for x in xs: body(x)\<close>, which stops at the first exception.\<close>

fun for_each :: "('a \<Rightarrow> unit prog) \<Rightarrow> 'a list \<Rightarrow> unit prog" where
  "for_each body [] = ret ()"
| "for_each body (x # xs) = bnd (body x) (\<lambda>_. for_each body xs)"

definition create_field :: "remote \<Rightarrow> pyval \<Rightarrow> pyval \<Rightarrow> unit prog" where
  "create_field R schema params =
     bnd (CreateFieldParams schema params) (\<lambda>_.
     bnd (logger_info ''Creating field for params'') (\<lambda>_.
     try_except
       (bnd (lift (expand_kwargs params)) (\<lambda>kw.
        bnd (remote_call R (AddField schema kw)) (\<lambda>_.
        logger_info ''Field added to schema'')))
       (\<lambda>e. bnd (logger_info ''Problem creating field'') (\<lambda>_. raise e))))"

definition create_index :: "remote \<Rightarrow> pyval \<Rightarrow> pyval \<Rightarrow> unit prog" where
  "create_index R index_params params =
     bnd (CreateIndexParams index_params params) (\<lambda>_.
     bnd (logger_info ''Creating index for params'') (\<lambda>_.
     try_except
       (bnd (lift (expand_kwargs params)) (\<lambda>kw.
        bnd (remote_call R (AddIndex index_params kw)) (\<lambda>_.
        logger_info ''Index added to index params'')))
       (\<lambda>e. bnd (logger_info ''Problem creating index params'') (\<lambda>_. raise e))))"

definition list_collections :: "remote \<Rightarrow> pyval prog" where
  "list_collections R =
     try_except
       (bnd (remote_call R ListCollections) (\<lambda>collections.
        bnd (ListCollectionsResults collections) (\<lambda>_.
        bnd (logger_info ''Available collections'') (\<lambda>_.
        ret collections))))
       (\<lambda>e. bnd (logger_error ''Problem listing collections'') (\<lambda>_. raise e))"

text \<open>\<^verbatim>\<open>schema.add_function(func)\<close>, the body of the second loop of
  \<^verbatim>\<open>create_collection\<close>.\<close>

definition add_function :: "remote \<Rightarrow> pyval \<Rightarrow> pyval \<Rightarrow> unit prog" where
  "add_function R schema func =
     bnd (remote_call R (AddFunction schema func)) (\<lambda>_. ret ())"

text \<open>
  The body of the \<^verbatim>\<open>try\<close> of \<^verbatim>\<open>create_collection\<close> in two parts: building the
  schema and the index parameters and invoking the remote create, then listing the
  collections again.
\<close>

definition build_and_create :: "remote \<Rightarrow> pyval \<Rightarrow> pyval \<Rightarrow> pyval \<Rightarrow> pyval \<Rightarrow> unit prog" where
  "build_and_create R name field_params_list func_list index_params_list =
     bnd (remote_call R (CreateSchema [(''enable_dynamic_field'', PBool True)])) (\<lambda>schema.
     bnd (lift (py_iter field_params_list)) (\<lambda>fields.
     bnd (for_each (create_field R schema) fields) (\<lambda>_.
     bnd (lift (py_iter func_list)) (\<lambda>funcs.
     bnd (for_each (add_function R schema) funcs) (\<lambda>_.
     bnd (remote_call R PrepareIndexParams) (\<lambda>index_params.
     bnd (lift (py_iter index_params_list)) (\<lambda>indexes.
     bnd (for_each (create_index R index_params) indexes) (\<lambda>_.
     bnd (remote_call R (CreateCollection
            [(''collection_name'', name), (''schema'', schema),
             (''index_params'', index_params)])) (\<lambda>_.
     ret ())))))))))"

definition check_created :: "remote \<Rightarrow> pyval \<Rightarrow> pyval prog" where
  "check_created R name =
     bnd (list_collections R) (\<lambda>collections.
     bnd (lift (py_in name collections)) (\<lambda>present.
     if present then bnd (logger_info ''Created collection'') (\<lambda>_. ret PNone)
     else bnd (logger_error ''The new collection name is not in the collections list'') (\<lambda>_.
          raise (ValueError ''The new collection name is not in the collections list''))))"

definition create_collection :: "remote \<Rightarrow> pyval \<Rightarrow> pyval \<Rightarrow> pyval \<Rightarrow> pyval \<Rightarrow> pyval prog" where
  "create_collection R name field_params_list func_list index_params_list =
     bnd (CreateCollectionParams name field_params_list func_list index_params_list) (\<lambda>_.
     bnd (list_collections R) (\<lambda>collections.
     bnd (lift (py_in name collections)) (\<lambda>present.
     if present then bnd (logger_info ''Collections already exists'') (\<lambda>_. ret PNone)
     else
       bnd (logger_info ''Creating collection'') (\<lambda>_.
       try_except
         (bnd (build_and_create R name field_params_list func_list index_params_list) (\<lambda>_.
          check_created R name))
         (\<lambda>e. bnd (logger_error ''Problem creating collection'') (\<lambda>_. raise e))))))"

definition check_dropped :: "remote \<Rightarrow> pyval \<Rightarrow> pyval prog" where
  "check_dropped R name =
     bnd (list_collections R) (\<lambda>collections.
     bnd (lift (py_in name collections)) (\<lambda>present.
     if \<not> present then bnd (logger_info ''Dropped collection'') (\<lambda>_. ret PNone)
     else bnd (logger_error ''The collection name is still in the collections list'') (\<lambda>_.
          raise (ValueError ''The collection name is still in the collections list''))))"

definition drop_collection :: "remote \<Rightarrow> pyval \<Rightarrow> pyval prog" where
  "drop_collection R name =
     bnd (DropCollectionParams name) (\<lambda>_.
     bnd (list_collections R) (\<lambda>collections.
     bnd (lift (py_in name collections)) (\<lambda>present.
     if \<not> present then bnd (logger_info ''Cannot find collection'') (\<lambda>_. ret PNone)
     else
       bnd (logger_info ''Dropping collection'') (\<lambda>_.
       try_except
         (bnd (remote_call R (DropCollection [(''collection_name'', name)])) (\<lambda>_.
          check_dropped R name))
         (\<lambda>e. bnd (logger_error ''Problem dropping collection'') (\<lambda>_. raise e))))))"

definition insert_data :: "remote \<Rightarrow> pyval \<Rightarrow> pyval \<Rightarrow> pyval prog" where
  "insert_data R name data =
     bnd (InsertParams name data) (\<lambda>_.
     bnd (list_collections R) (\<lambda>collections.
     bnd (lift (py_in name collections)) (\<lambda>present.
     if \<not> present then bnd (logger_info ''Cannot find collection'') (\<lambda>_. ret PNone)
     else
       bnd (logger_info ''Inserting data'') (\<lambda>_.
       try_except
         (bnd (remote_call R (Insert [(''collection_name'', name), (''data'', data)])) (\<lambda>results.
          bnd (time_sleep (1 / 2)) (\<lambda>_.
          bnd (logger_info ''Inserted data'') (\<lambda>_.
          bnd (InsertResults results) (\<lambda>_.
          ret results)))))
         (\<lambda>e. bnd (logger_error ''Problem inserting data'') (\<lambda>_. raise e))))))"

definition delete :: "remote \<Rightarrow> pyval \<Rightarrow> pyval \<Rightarrow> pyval prog" where
  "delete R ids name =
     bnd (DeleteParams name ids) (\<lambda>_.
     bnd (list_collections R) (\<lambda>collections.
     bnd (lift (py_in name collections)) (\<lambda>present.
     if \<not> present then bnd (logger_info ''Cannot find collection'') (\<lambda>_. ret PNone)
     else
       bnd (logger_info ''Deleting data'') (\<lambda>_.
       try_except
         (bnd (remote_call R (Delete [(''collection_name'', name), (''ids'', ids)])) (\<lambda>results.
          bnd (time_sleep (1 / 2)) (\<lambda>_.
          bnd (logger_info ''Deleted data'') (\<lambda>_.
          ret PNone))))
         (\<lambda>e. bnd (logger_error ''Problem deleting data'') (\<lambda>_. raise e))))))"

text \<open>The fixed arguments of the search: \<^verbatim>\<open>anns_field\<close>, \<^verbatim>\<open>output_fields\<close> and
  \<^verbatim>\<open>search_params\<close>.\<close>

definition search_kwargs :: "pyval \<Rightarrow> pyval \<Rightarrow> pyval \<Rightarrow> kwargs" where
  "search_kwargs name query_list limit =
     [(''collection_name'', name),
      (''data'', query_list),
      (''anns_field'', PStr ''sparse''),
      (''output_fields'', PList [PStr ''text'']),
      (''limit'', limit),
      (''search_params'',
         PDict [(PStr ''params'', PDict [(PStr ''drop_ratio_search'', PFloat (2 / 10))])])]"

text \<open>The two nested loops that log every hit of every result: the inner one, then the
  outer one.\<close>

definition log_result :: "pyval \<Rightarrow> unit prog" where
  "log_result result =
     bnd (lift (py_iter result)) (\<lambda>hits.
     for_each (\<lambda>hit. logger_info ''Result'') hits)"

definition log_hits :: "pyval \<Rightarrow> unit prog" where
  "log_hits results =
     bnd (lift (py_iter results)) (\<lambda>rs.
     for_each log_result rs)"

definition full_text_search ::
  "remote \<Rightarrow> (pyval \<Rightarrow> int option) \<Rightarrow> pyval \<Rightarrow> pyval \<Rightarrow> pyval \<Rightarrow> pyval prog" where
  "full_text_search R lax_int name query_list limit =
     bnd (FullTextSearchParams lax_int name query_list limit) (\<lambda>_.
     bnd (list_collections R) (\<lambda>collections.
     bnd (lift (py_in name collections)) (\<lambda>present.
     if \<not> present then bnd (logger_info ''Cannot find collection'') (\<lambda>_. ret PNone)
     else
       bnd (logger_info ''Performing search'') (\<lambda>_.
       try_except
         (bnd (remote_call R (Search (search_kwargs name query_list limit))) (\<lambda>results.
          bnd (FullTextSearchResults results) (\<lambda>_.
          bnd (log_hits results) (\<lambda>_.
          ret results))))
         (\<lambda>e. bnd (logger_error ''Problem performing search'') (\<lambda>_. raise e))))))"

section \<open>Remote services to run the facade against\<close>

text \<open>
  A well-behaved service: it starts with the collections \<open>initial\<close>, a successful
  create adds the name, a drop removes it, and every other call succeeds with a value of
  the type the client library documents.
\<close>

fun replay_collections :: "pyval list \<Rightarrow> event list \<Rightarrow> pyval list" where
  "replay_collections cs [] = cs"
| "replay_collections cs (Remote (CreateCollection kw) # tr) =
     replay_collections
       (case map_of kw ''collection_name'' of Some n \<Rightarrow> cs @ [n] | None \<Rightarrow> cs) tr"
| "replay_collections cs (Remote (DropCollection kw) # tr) =
     replay_collections
       (case map_of kw ''collection_name'' of Some n \<Rightarrow> removeAll n cs | None \<Rightarrow> cs) tr"
| "replay_collections cs (ev # tr) = replay_collections cs tr"

definition mock_remote :: "pyval list \<Rightarrow> remote" where
  "mock_remote initial tr c =
     (case c of
        Connect kw \<Rightarrow> Inr (PObj MilvusClient [])
      | ListCollections \<Rightarrow> Inr (PList (replay_collections initial tr))
      | CreateSchema kw \<Rightarrow> Inr (PObj CollectionSchema [])
      | AddField schema kw \<Rightarrow> Inr PNone
      | AddFunction schema func \<Rightarrow> Inr PNone
      | PrepareIndexParams \<Rightarrow> Inr (PObj IndexParams [])
      | AddIndex index_params kw \<Rightarrow> Inr PNone
      | CreateCollection kw \<Rightarrow> Inr PNone
      | DropCollection kw \<Rightarrow> Inr PNone
      | Insert kw \<Rightarrow> Inr (PDict [(PStr ''insert_count'', PInt 1)])
      | Delete kw \<Rightarrow> Inr (PDict [(PStr ''delete_count'', PInt 1)])
      | Search kw \<Rightarrow> Inr (PObj SearchResult [PObj HybridHits [PObj Hit []]]))"

text \<open>The service \<open>R\<close>, except that the call \<open>c\<close> is always answered with \<open>r\<close>.\<close>

definition override :: "call \<Rightarrow> exn + pyval \<Rightarrow> remote \<Rightarrow> remote" where
  "override c r R tr c' = (if c' = c then r else R tr c')"

text \<open>The default embedding function of the source, \<^verbatim>\<open>func_bm25\<close>, an instance
  of \<^verbatim>\<open>Function\<close>.\<close>

definition func_bm25 :: "pyval" where
  "func_bm25 = PObj Function []"

section \<open>Reading a trace\<close>





section \<open>Traces, validation and the lifecycle guard\<close>

lemma remote_calls_append: "remote_calls (xs @ ys) = remote_calls xs @ remote_calls ys"
  by (induction xs rule: remote_calls.induct) auto

text \<open>A model either accepts its arguments and leaves the trace alone, or raises a
  type-validation error after logging at most; it never calls the remote service.\<close>

lemma validate_fields_trace:
  "validate_fields bad fs tr = (r, tr') \<Longrightarrow>
     (r = Inr () \<and> tr' = tr) \<or>
     (\<exists>e. r = Inl e \<and> type_validation_error e \<and> remote_calls tr' = remote_calls tr)"
proof (induction bad fs arbitrary: r tr' rule: validate_fields.induct)
  case (1 bad)
  then show ?case by (auto simp: ret_def raise_def split: if_splits)
next
  case (2 bad nm core validator v fs)
  show ?case
  proof (cases "core v")
    case None
    with 2 show ?thesis by simp
  next
    case (Some w)
    show ?thesis
    proof (cases "validator w")
      case None
      with 2 Some show ?thesis by simp
    next
      case (Some msg)
      with 2 \<open>core v = Some w\<close> show ?thesis
        by (auto simp: bnd_def logger_error_def raise_def remote_calls_append)
    qed
  qed
qed

lemma BaseModel_trace:
  "BaseModel fs tr = (r, tr') \<Longrightarrow>
     (r = Inr () \<and> tr' = tr) \<or>
     (\<exists>e. r = Inl e \<and> type_validation_error e \<and> remote_calls tr' = remote_calls tr)"
  unfolding BaseModel_def by (rule validate_fields_trace)

text \<open>Arguments of the declared types pass validation.\<close>

lemma those_core_str: "those (map (core_str \<circ> PStr) qs) = Some (map PStr qs)"
  by (induction qs) auto

lemma those_core_dict: "those (map (core_dict \<circ> PDict) ds) = Some (map PDict ds)"
  by (induction ds) auto

lemma those_core_any: "those (map core_any xs) = Some xs"
  by (induction xs) (auto simp: core_any_def)

lemma core_list_str: "core_list core_str (PList (map PStr qs)) = Some (PList (map PStr qs))"
  by (simp add: core_list_def those_core_str)

lemma core_list_dict: "core_list core_dict (PList (map PDict ds)) = Some (PList (map PDict ds))"
  by (simp add: core_list_def those_core_dict)

lemma core_list_any: "core_list core_any (PList xs) = Some (PList xs)"
  by (simp add: core_list_def those_core_any)

lemma list_all_str: "list_all isinstance_str (map PStr qs)"
  by (induction qs) auto

lemma list_all_dict: "list_all isinstance_dict (map PDict ds)"
  by (induction ds) auto

lemma DropCollectionParams_ok: "DropCollectionParams (PStr n) tr = (Inr (), tr)"
  by (simp add: DropCollectionParams_def BaseModel_def validate_name_def check_instance_def
      ret_def)

lemma InsertParams_ok: "InsertParams (PStr n) (PList (map PDict ds)) tr = (Inr (), tr)"
  by (simp add: InsertParams_def BaseModel_def validate_name_def check_instance_def ret_def
      core_list_dict list_all_dict)

lemma DeleteParams_ok: "DeleteParams (PStr n) (PList (map PStr ids)) tr = (Inr (), tr)"
  by (simp add: DeleteParams_def BaseModel_def validate_name_def check_instance_def ret_def
      core_list_str list_all_str)

lemma FullTextSearchParams_ok:
  "FullTextSearchParams lax_int (PStr n) (PList (map PStr qs)) (PInt k) tr = (Inr (), tr)"
  by (simp add: FullTextSearchParams_def BaseModel_def validate_name_def check_instance_def
      ret_def core_list_str list_all_str)

lemma CreateCollectionParams_ok:
  "list_all (isinstance_of Function) funcs \<Longrightarrow>
   CreateCollectionParams (PStr n) (PList (map PDict fs)) (PList funcs) (PList (map PDict ixs)) tr
     = (Inr (), tr)"
  by (simp add: CreateCollectionParams_def BaseModel_def validate_name_def check_instance_def
      ret_def core_list_dict list_all_dict core_list_any)

text \<open>A listing that succeeds made exactly one remote call, and what it returns can be
  searched for a name.\<close>

lemma sequence_items_iter: "sequence_items v = Some xs \<Longrightarrow> py_iter v = Inr xs"
  by (cases v) auto

lemma ListCollectionsResults_ok:
  "ListCollectionsResults cs tr = (Inr (), tr') \<Longrightarrow> tr' = tr \<and> (\<exists>xs. py_iter cs = Inr xs)"
  by (auto simp: ListCollectionsResults_def BaseModel_def core_list_def bnd_def logger_error_def
      raise_def ret_def sequence_items_iter split: option.splits if_splits)

lemma list_collections_Inr:
  assumes "list_collections R tr = (Inr cs, tr1)"
  shows "tr1 = tr @ [Remote ListCollections, Log INFO ''Available collections'']"
    and "R tr ListCollections = Inr cs"
    and "\<exists>b. py_in x cs = Inr b"
  using assms
  by (auto simp: list_collections_def try_except_def bnd_def remote_call_def logger_info_def
      logger_error_def raise_def ret_def py_in_def
      split: sum.splits prod.splits dest!: ListCollectionsResults_ok)

section \<open>The lifecycle guard\<close>

text \<open>
  Claim C3. A well-typed call of \<^verbatim>\<open>drop_collection\<close>, \<^verbatim>\<open>insert\<close>,
  \<^verbatim>\<open>delete\<close> or \<^verbatim>\<open>full_text_search\<close> whose collection name is not in the list
  the existence check obtains returns \<^verbatim>\<open>None\<close> right after that check: the only
  remote call made is the listing, and what follows it is one informational log line.
\<close>

theorem absent_collection_returns_None:
  assumes "list_collections R tr = (Inr cs, tr1)"
    and "py_in (PStr n) cs = Inr False"
  shows "drop_collection R (PStr n) tr = (Inr PNone, tr1 @ [Log INFO ''Cannot find collection''])
    \<and> insert_data R (PStr n) (PList (map PDict ds)) tr
          = (Inr PNone, tr1 @ [Log INFO ''Cannot find collection''])
    \<and> delete R (PList (map PStr ids)) (PStr n) tr
          = (Inr PNone, tr1 @ [Log INFO ''Cannot find collection''])
    \<and> full_text_search R lax_int (PStr n) (PList (map PStr qs)) (PInt k) tr
          = (Inr PNone, tr1 @ [Log INFO ''Cannot find collection''])
    \<and> remote_calls (tr1 @ [Log INFO ''Cannot find collection''])
          = remote_calls tr @ [ListCollections]"
proof -
  have tr1: "tr1 = tr @ [Remote ListCollections, Log INFO ''Available collections'']"
    using assms(1) by (rule list_collections_Inr)
  have "drop_collection R (PStr n) tr = (Inr PNone, tr1 @ [Log INFO ''Cannot find collection''])"
    using assms
    by (simp add: drop_collection_def bnd_def DropCollectionParams_ok lift_def logger_info_def
        ret_def)
  moreover have "insert_data R (PStr n) (PList (map PDict ds)) tr
      = (Inr PNone, tr1 @ [Log INFO ''Cannot find collection''])"
    using assms
    by (simp add: insert_data_def bnd_def InsertParams_ok lift_def logger_info_def ret_def)
  moreover have "delete R (PList (map PStr ids)) (PStr n) tr
      = (Inr PNone, tr1 @ [Log INFO ''Cannot find collection''])"
    using assms
    by (simp add: delete_def bnd_def DeleteParams_ok lift_def logger_info_def ret_def)
  moreover have "full_text_search R lax_int (PStr n) (PList (map PStr qs)) (PInt k) tr
      = (Inr PNone, tr1 @ [Log INFO ''Cannot find collection''])"
    using assms
    by (simp add: full_text_search_def bnd_def FullTextSearchParams_ok lift_def logger_info_def
        ret_def)
  moreover have "remote_calls (tr1 @ [Log INFO ''Cannot find collection''])
      = remote_calls tr @ [ListCollections]"
    by (simp add: tr1 remote_calls_append)
  ultimately show ?thesis by simp
qed

theorem absent_collection_returns_None_witness:
  "list_collections (mock_remote [PStr ''other'']) []
     = (Inr (PList [PStr ''other'']), [Remote ListCollections, Log INFO ''Available collections''])
   \<and> py_in (PStr ''_test'') (PList [PStr ''other'']) = Inr False
   \<and> drop_collection (mock_remote [PStr ''other'']) (PStr ''_test'') []
     = (Inr PNone, [Remote ListCollections, Log INFO ''Available collections'',
                    Log INFO ''Cannot find collection''])"
proof -
  have h1: "list_collections (mock_remote [PStr ''other'']) []
     = (Inr (PList [PStr ''other'']), [Remote ListCollections, Log INFO ''Available collections''])"
    by code_simp
  have h2: "py_in (PStr ''_test'') (PList [PStr ''other'']) = Inr False"
    by code_simp
  show ?thesis
    using absent_collection_returns_None [OF h1 h2, of "[]" "[]" "\<lambda>v. None" "[]" 3] h1 h2 by simp
qed

section \<open>Creating a collection that exists\<close>

text \<open>
  Claim C4. A well-typed call of \<^verbatim>\<open>create_collection\<close> whose name is already in
  the list the existence check obtains does nothing: it logs one informational message
  and returns \<^verbatim>\<open>None\<close>; the listing is its only remote call, so no schema is
  created, no field, function or index is added and the remote create is not invoked.
\<close>

theorem existing_collection_is_noop:
  assumes "list_collections R tr = (Inr cs, tr1)"
    and "py_in (PStr n) cs = Inr True"
    and "list_all (isinstance_of Function) funcs"
  shows "create_collection R (PStr n) (PList (map PDict fs)) (PList funcs) (PList (map PDict ixs)) tr
           = (Inr PNone, tr1 @ [Log INFO ''Collections already exists''])
    \<and> remote_calls (tr1 @ [Log INFO ''Collections already exists''])
           = remote_calls tr @ [ListCollections]"
proof -
  have tr1: "tr1 = tr @ [Remote ListCollections, Log INFO ''Available collections'']"
    using assms(1) by (rule list_collections_Inr)
  have "create_collection R (PStr n) (PList (map PDict fs)) (PList funcs) (PList (map PDict ixs)) tr
           = (Inr PNone, tr1 @ [Log INFO ''Collections already exists''])"
    using assms
    by (simp add: create_collection_def bnd_def CreateCollectionParams_ok lift_def logger_info_def
        ret_def)
  moreover have "remote_calls (tr1 @ [Log INFO ''Collections already exists''])
           = remote_calls tr @ [ListCollections]"
    by (simp add: tr1 remote_calls_append)
  ultimately show ?thesis by simp
qed

theorem existing_collection_is_noop_witness:
  "list_collections (mock_remote [PStr ''collection_ex'']) []
     = (Inr (PList [PStr ''collection_ex'']),
        [Remote ListCollections, Log INFO ''Available collections''])
   \<and> py_in (PStr ''collection_ex'') (PList [PStr ''collection_ex'']) = Inr True
   \<and> list_all (isinstance_of Function) [func_bm25]
   \<and> create_collection (mock_remote [PStr ''collection_ex'']) (PStr ''collection_ex'')
        (PList (map PDict [[(PStr ''field_name'', PStr ''sparse'')]])) (PList [func_bm25])
        (PList (map PDict [])) []
     = (Inr PNone, [Remote ListCollections, Log INFO ''Available collections'',
                    Log INFO ''Collections already exists''])"
proof -
  have h1: "list_collections (mock_remote [PStr ''collection_ex'']) []
     = (Inr (PList [PStr ''collection_ex'']),
        [Remote ListCollections, Log INFO ''Available collections''])"
    by code_simp
  have h2: "py_in (PStr ''collection_ex'') (PList [PStr ''collection_ex'']) = Inr True"
    by code_simp
  have h3: "list_all (isinstance_of Function) [func_bm25]"
    by code_simp
  show ?thesis
    using existing_collection_is_noop [OF h1 h2 h3, of "[[(PStr ''field_name'', PStr ''sparse'')]]" "[]"]
      h1 h2 h3 by simp
qed

section \<open>Full-text search\<close>

lemma FullTextSearchResults_run:
  "FullTextSearchResults results tr =
     (case validate_search_results results of
        None \<Rightarrow> (Inr (), tr)
      | Some msg \<Rightarrow> (Inl (TypeError msg), tr @ [Log ERROR msg]))"
  by (simp add: FullTextSearchResults_def BaseModel_def core_any_def bnd_def logger_error_def
      raise_def ret_def split: option.splits)

lemma for_each_log:
  "for_each (\<lambda>hit. logger_info m) hits tr = (Inr (), tr @ map (\<lambda>hit. Log INFO m) hits)"
  by (induction hits arbitrary: tr) (auto simp: ret_def bnd_def logger_info_def)

lemma remote_calls_logs: "remote_calls (map (\<lambda>x. Log l m) xs) = []"
  by (induction xs) auto

lemma log_result_obj:
  "log_result (PObj c hits) tr = (Inr (), tr @ map (\<lambda>hit. Log INFO ''Result'') hits)"
  by (simp add: log_result_def bnd_def lift_def for_each_log)

lemma log_results:
  "list_all (isinstance_of HybridHits) items \<Longrightarrow>
   \<exists>tr'. for_each log_result items tr = (Inr (), tr') \<and> remote_calls tr' = remote_calls tr"
proof (induction items arbitrary: tr)
  case Nil
  then show ?case by (simp add: ret_def)
next
  case (Cons item items)
  then obtain c hits where item: "item = PObj c hits"
    by (cases item) auto
  from Cons obtain tr' where
    "for_each log_result items (tr @ map (\<lambda>hit. Log INFO ''Result'') hits) = (Inr (), tr')"
    and "remote_calls tr' = remote_calls (tr @ map (\<lambda>hit. Log INFO ''Result'') hits)"
    by fastforce
  then show ?case
    by (simp add: item bnd_def log_result_obj remote_calls_append remote_calls_logs)
qed

lemma log_hits_valid:
  assumes "validate_search_results results = None"
  shows "\<exists>tr'. log_hits results tr = (Inr (), tr') \<and> remote_calls tr' = remote_calls tr"
proof -
  from assms obtain items where r: "results = PObj SearchResult items"
    and items: "list_all (isinstance_of HybridHits) items"
    by (cases results) (auto split: if_splits)
  from log_results [OF items, of tr] show ?thesis
    by (simp add: log_hits_def r bnd_def lift_def)
qed

lemma isinstance_of_iff: "isinstance_of c v \<longleftrightarrow> (\<exists>xs. v = PObj c xs)"
  by (cases v) auto

lemma hit_list_iff:
  "isinstance_of HybridHits item \<and> all_hits item \<longleftrightarrow>
     (\<exists>hits. item = PObj HybridHits hits \<and> (\<forall>h\<in>set hits. \<exists>xs. h = PObj Hit xs))"
  by (cases item) (auto simp: list_all_iff isinstance_of_iff)

lemma hit_lists_iff:
  "list_all (isinstance_of HybridHits) items \<and> list_all all_hits items \<longleftrightarrow>
     (\<forall>item\<in>set items. \<exists>hits. item = PObj HybridHits hits
              \<and> (\<forall>h\<in>set hits. \<exists>xs. h = PObj Hit xs))"
proof -
  have "list_all (isinstance_of HybridHits) items \<and> list_all all_hits items \<longleftrightarrow>
      (\<forall>item\<in>set items. isinstance_of HybridHits item \<and> all_hits item)"
    by (auto simp: list_all_iff)
  then show ?thesis
    by (simp only: hit_list_iff)
qed

lemma validate_search_results_obj:
  "validate_search_results (PObj c items) = None \<longleftrightarrow>
     c = SearchResult \<and> (\<forall>item\<in>set items. \<exists>hits. item = PObj HybridHits hits
              \<and> (\<forall>h\<in>set hits. \<exists>xs. h = PObj Hit xs))"
proof -
  have "validate_search_results (PObj c items) = None \<longleftrightarrow>
      c = SearchResult \<and> (list_all (isinstance_of HybridHits) items \<and> list_all all_hits items)"
    by simp
  then show ?thesis
    by (simp only: hit_lists_iff)
qed

lemma validate_search_results_None_iff:
  "validate_search_results results = None \<longleftrightarrow>
     (\<exists>items. results = PObj SearchResult items
        \<and> (\<forall>item\<in>set items. \<exists>hits. item = PObj HybridHits hits
              \<and> (\<forall>h\<in>set hits. \<exists>xs. h = PObj Hit xs)))"
proof (cases results)
  case (PObj c items)
  show ?thesis
    unfolding PObj validate_search_results_obj by simp
qed simp_all

text \<open>
  Claim C2. For a collection name that is in the list the existence check obtains, a list
  of string queries and an integer limit, \<^verbatim>\<open>full_text_search\<close> calls the remote
  search exactly once, after the listing, with \<^verbatim>\<open>anns_field="sparse"\<close>,
  \<^verbatim>\<open>output_fields=["text"]\<close>, the given limit and the search parameters
  \<^verbatim>\<open>{'params': {'drop_ratio_search': 0.2}}\<close>. When the remote search raises, the
  exception is raised again. When it returns, the result is validated: a
  \<^verbatim>\<open>SearchResult\<close> whose items are all \<^verbatim>\<open>HybridHits\<close> whose items are all
  \<^verbatim>\<open>Hit\<close>s is returned as it is, and every other result raises a
  \<^verbatim>\<open>TypeError\<close>.
\<close>

theorem full_text_search_present:
  assumes "list_collections R tr = (Inr cs, tr1)"
    and "py_in (PStr n) cs = Inr True"
  shows
    "let search = Search [(''collection_name'', PStr n),
                          (''data'', PList (map PStr qs)),
                          (''anns_field'', PStr ''sparse''),
                          (''output_fields'', PList [PStr ''text'']),
                          (''limit'', PInt k),
                          (''search_params'',
                             PDict [(PStr ''params'',
                                     PDict [(PStr ''drop_ratio_search'', PFloat (2 / 10))])])];
         run = full_text_search R lax_int (PStr n) (PList (map PStr qs)) (PInt k) tr
     in remote_calls (snd run) = remote_calls tr @ [ListCollections, search]
      \<and> (\<forall>e. R (tr1 @ [Log INFO ''Performing search'']) search = Inl e \<longrightarrow> fst run = Inl e)
      \<and> (\<forall>results. R (tr1 @ [Log INFO ''Performing search'']) search = Inr results \<longrightarrow>
            (if \<exists>items. results = PObj SearchResult items
                  \<and> (\<forall>item\<in>set items. \<exists>hits. item = PObj HybridHits hits
                        \<and> (\<forall>h\<in>set hits. \<exists>xs. h = PObj Hit xs))
             then fst run = Inr results
             else \<exists>msg. fst run = Inl (TypeError msg)))"
proof -
  let ?c = "Search [(''collection_name'', PStr n),
                    (''data'', PList (map PStr qs)),
                    (''anns_field'', PStr ''sparse''),
                    (''output_fields'', PList [PStr ''text'']),
                    (''limit'', PInt k),
                    (''search_params'',
                       PDict [(PStr ''params'',
                               PDict [(PStr ''drop_ratio_search'', PFloat (2 / 10))])])]"
  let ?tr2 = "tr1 @ [Log INFO ''Performing search'']"
  let ?run = "full_text_search R lax_int (PStr n) (PList (map PStr qs)) (PInt k) tr"
  have tr1: "tr1 = tr @ [Remote ListCollections, Log INFO ''Available collections'']"
    using assms(1) by (rule list_collections_Inr)
  have run: "?run =
      try_except
         (bnd (remote_call R ?c) (\<lambda>results.
          bnd (FullTextSearchResults results) (\<lambda>_.
          bnd (log_hits results) (\<lambda>_.
          ret results))))
         (\<lambda>e. bnd (logger_error ''Problem performing search'') (\<lambda>_. raise e)) ?tr2"
    using assms
    by (simp add: full_text_search_def bnd_def FullTextSearchParams_ok lift_def logger_info_def
        search_kwargs_def)
  have calls: "remote_calls (snd ?run) = remote_calls tr @ [ListCollections, ?c]"
    and raised: "\<And>e. R ?tr2 ?c = Inl e \<Longrightarrow> fst ?run = Inl e"
    and returned: "\<And>results. R ?tr2 ?c = Inr results \<Longrightarrow>
       fst ?run = (case validate_search_results results of
                     Some msg \<Rightarrow> Inl (TypeError msg) | None \<Rightarrow> Inr results)"
  proof -
    show "remote_calls (snd ?run) = remote_calls tr @ [ListCollections, ?c]"
    proof (cases "R ?tr2 ?c")
      case (Inl e)
      then show ?thesis
        by (simp add: run try_except_def bnd_def remote_call_def logger_error_def raise_def
            remote_calls_append tr1)
    next
      case (Inr results)
      show ?thesis
      proof (cases "validate_search_results results")
        case (Some msg)
        with Inr show ?thesis
          by (simp add: run try_except_def bnd_def remote_call_def logger_error_def raise_def
              remote_calls_append tr1 FullTextSearchResults_run)
      next
        case None
        from log_hits_valid [OF None, of "?tr2 @ [Remote ?c]"] obtain tr' where
          "log_hits results (?tr2 @ [Remote ?c]) = (Inr (), tr')"
          and "remote_calls tr' = remote_calls (?tr2 @ [Remote ?c])"
          by blast
        with Inr None show ?thesis
          by (simp add: run try_except_def bnd_def remote_call_def ret_def
              remote_calls_append tr1 FullTextSearchResults_run)
      qed
    qed
  next
    fix e assume "R ?tr2 ?c = Inl e"
    then show "fst ?run = Inl e"
      by (simp add: run try_except_def bnd_def remote_call_def logger_error_def raise_def)
  next
    fix results assume r: "R ?tr2 ?c = Inr results"
    show "fst ?run = (case validate_search_results results of
                     Some msg \<Rightarrow> Inl (TypeError msg) | None \<Rightarrow> Inr results)"
    proof (cases "validate_search_results results")
      case (Some msg)
      with r show ?thesis
        by (simp add: run try_except_def bnd_def remote_call_def logger_error_def raise_def
            FullTextSearchResults_run)
    next
      case None
      from log_hits_valid [OF None, of "?tr2 @ [Remote ?c]"] obtain tr' where
        "log_hits results (?tr2 @ [Remote ?c]) = (Inr (), tr')"
        by blast
      with r None show ?thesis
        by (simp add: run try_except_def bnd_def remote_call_def ret_def
            FullTextSearchResults_run)
    qed
  qed
  have shape: "\<And>results. R ?tr2 ?c = Inr results \<Longrightarrow>
      (if \<exists>items. results = PObj SearchResult items
                  \<and> (\<forall>item\<in>set items. \<exists>hits. item = PObj HybridHits hits
                        \<and> (\<forall>h\<in>set hits. \<exists>xs. h = PObj Hit xs))
       then fst ?run = Inr results
       else \<exists>msg. fst ?run = Inl (TypeError msg))"
  proof -
    fix results assume r: "R ?tr2 ?c = Inr results"
    show "(if \<exists>items. results = PObj SearchResult items
                  \<and> (\<forall>item\<in>set items. \<exists>hits. item = PObj HybridHits hits
                        \<and> (\<forall>h\<in>set hits. \<exists>xs. h = PObj Hit xs))
       then fst ?run = Inr results
       else \<exists>msg. fst ?run = Inl (TypeError msg))"
    proof (cases "validate_search_results results")
      case None
      with returned [OF r] validate_search_results_None_iff [of results] show ?thesis
        by simp
    next
      case (Some msg)
      with returned [OF r] validate_search_results_None_iff [of results] show ?thesis
        by simp
    qed
  qed
  show ?thesis
    unfolding Let_def
  proof (intro conjI allI impI)
    show "remote_calls (snd ?run) = remote_calls tr @ [ListCollections, ?c]"
      by (rule calls)
  next
    fix e assume "R ?tr2 ?c = Inl e"
    then show "fst ?run = Inl e" by (rule raised)
  next
    fix results assume "R ?tr2 ?c = Inr results"
    then show "(if \<exists>items. results = PObj SearchResult items
                  \<and> (\<forall>item\<in>set items. \<exists>hits. item = PObj HybridHits hits
                        \<and> (\<forall>h\<in>set hits. \<exists>xs. h = PObj Hit xs))
       then fst ?run = Inr results
       else \<exists>msg. fst ?run = Inl (TypeError msg))"
      by (rule shape)
  qed
qed


theorem full_text_search_present_witness:
  "list_collections (mock_remote [PStr ''_test_collection'']) []
     = (Inr (PList [PStr ''_test_collection'']),
        [Remote ListCollections, Log INFO ''Available collections''])
   \<and> py_in (PStr ''_test_collection'') (PList [PStr ''_test_collection'']) = Inr True
   \<and> fst (full_text_search (mock_remote [PStr ''_test_collection'']) (\<lambda>v. None)
        (PStr ''_test_collection'') (PList (map PStr [''a'', ''b'', ''c''])) (PInt 3) [])
     = Inr (PObj SearchResult [PObj HybridHits [PObj Hit []]])
   \<and> remote_calls (snd (full_text_search (mock_remote [PStr ''_test_collection''])
        (\<lambda>v. None) (PStr ''_test_collection'') (PList (map PStr [''a'', ''b'', ''c'']))
        (PInt 3) []))
     = [ListCollections,
        Search [(''collection_name'', PStr ''_test_collection''),
                (''data'', PList [PStr ''a'', PStr ''b'', PStr ''c'']),
                (''anns_field'', PStr ''sparse''),
                (''output_fields'', PList [PStr ''text'']),
                (''limit'', PInt 3),
                (''search_params'',
                   PDict [(PStr ''params'',
                           PDict [(PStr ''drop_ratio_search'', PFloat (2 / 10))])])]]
   \<and> (\<exists>msg. fst (full_text_search
          (override
             (Search [(''collection_name'', PStr ''_test_collection''),
                      (''data'', PList [PStr ''a'', PStr ''b'', PStr ''c'']),
                      (''anns_field'', PStr ''sparse''),
                      (''output_fields'', PList [PStr ''text'']),
                      (''limit'', PInt 3),
                      (''search_params'',
                         PDict [(PStr ''params'',
                                 PDict [(PStr ''drop_ratio_search'', PFloat (2 / 10))])])])
             (Inr (PObj SearchResult [PObj HybridHits [PObj Hit [], PInt 7]]))
             (mock_remote [PStr ''_test_collection'']))
          (\<lambda>v. None) (PStr ''_test_collection'') (PList (map PStr [''a'', ''b'', ''c'']))
          (PInt 3) []) = Inl (TypeError msg))"
proof -
  let ?M = "mock_remote [PStr ''_test_collection'']"
  let ?c = "Search [(''collection_name'', PStr ''_test_collection''),
                      (''data'', PList [PStr ''a'', PStr ''b'', PStr ''c'']),
                      (''anns_field'', PStr ''sparse''),
                      (''output_fields'', PList [PStr ''text'']),
                      (''limit'', PInt 3),
                      (''search_params'',
                         PDict [(PStr ''params'',
                                 PDict [(PStr ''drop_ratio_search'', PFloat (2 / 10))])])]"
  let ?B = "override ?c (Inr (PObj SearchResult [PObj HybridHits [PObj Hit [], PInt 7]])) ?M"
  have h1: "list_collections ?M []
     = (Inr (PList [PStr ''_test_collection'']),
        [Remote ListCollections, Log INFO ''Available collections''])"
    by code_simp
  have h1': "list_collections ?B []
     = (Inr (PList [PStr ''_test_collection'']),
        [Remote ListCollections, Log INFO ''Available collections''])"
    by code_simp
  have h2: "py_in (PStr ''_test_collection'') (PList [PStr ''_test_collection'']) = Inr True"
    by code_simp
  have good: "?M ([Remote ListCollections, Log INFO ''Available collections'']
                  @ [Log INFO ''Performing search'']) ?c
      = Inr (PObj SearchResult [PObj HybridHits [PObj Hit []]])"
    by (simp add: mock_remote_def)
  have bad: "?B ([Remote ListCollections, Log INFO ''Available collections'']
                  @ [Log INFO ''Performing search'']) ?c
      = Inr (PObj SearchResult [PObj HybridHits [PObj Hit [], PInt 7]])"
    by (simp add: override_def)
  from full_text_search_present [OF h1 h2, of "[''a'', ''b'', ''c'']" 3 "\<lambda>v. None"]
  have a: "remote_calls (snd (full_text_search ?M (\<lambda>v. None) (PStr ''_test_collection'')
        (PList (map PStr [''a'', ''b'', ''c''])) (PInt 3) [])) = [ListCollections, ?c]"
    and b: "fst (full_text_search ?M (\<lambda>v. None) (PStr ''_test_collection'')
        (PList (map PStr [''a'', ''b'', ''c''])) (PInt 3) [])
      = Inr (PObj SearchResult [PObj HybridHits [PObj Hit []]])"
    using good by (simp_all add: Let_def)
  from full_text_search_present [OF h1' h2, of "[''a'', ''b'', ''c'']" 3 "\<lambda>v. None"]
  have c: "\<exists>msg. fst (full_text_search ?B (\<lambda>v. None) (PStr ''_test_collection'')
        (PList (map PStr [''a'', ''b'', ''c''])) (PInt 3) []) = Inl (TypeError msg)"
    using bad by (simp add: Let_def)
  from a b c h1 h2 show ?thesis by simp
qed

section \<open>Inserting and deleting\<close>

lemma InsertResults_run:
  "InsertResults ack tr =
     (if isinstance_dict ack then (Inr (), tr) else (Inl (ValidationError [''results'']), tr))"
  by (cases ack)
     (simp_all add: InsertResults_def BaseModel_def check_instance_def ret_def raise_def)

text \<open>
  Claim C6. When the collection is in the list the existence check obtains and the remote
  insert or delete returns, the facade sleeps for 0.5 seconds right after the remote call
  and before it returns. \<^verbatim>\<open>insert\<close> then validates the acknowledgment: a
  dictionary is returned as it is, anything else raises the validation error;
  \<^verbatim>\<open>delete\<close> returns \<^verbatim>\<open>None\<close>.
\<close>

theorem insert_delete_sleep:
  assumes "list_collections R tr = (Inr cs, tr1)"
    and "py_in (PStr n) cs = Inr True"
  shows "(R (tr1 @ [Log INFO ''Inserting data''])
            (Insert [(''collection_name'', PStr n), (''data'', PList (map PDict ds))]) = Inr ack
          \<longrightarrow> insert_data R (PStr n) (PList (map PDict ds)) tr =
               (if isinstance_dict ack
                  then (Inr ack,
                        tr1 @ [Log INFO ''Inserting data'',
                               Remote (Insert [(''collection_name'', PStr n),
                                               (''data'', PList (map PDict ds))]),
                               Sleep (1 / 2), Log INFO ''Inserted data''])
                else (Inl (ValidationError [''results'']),
                      tr1 @ [Log INFO ''Inserting data'',
                             Remote (Insert [(''collection_name'', PStr n),
                                             (''data'', PList (map PDict ds))]),
                             Sleep (1 / 2), Log INFO ''Inserted data'',
                             Log ERROR ''Problem inserting data''])))
    \<and> (R (tr1 @ [Log INFO ''Deleting data''])
            (Delete [(''collection_name'', PStr n), (''ids'', PList (map PStr ids))]) = Inr ack'
          \<longrightarrow> delete R (PList (map PStr ids)) (PStr n) tr =
               (Inr PNone,
                tr1 @ [Log INFO ''Deleting data'',
                       Remote (Delete [(''collection_name'', PStr n),
                                       (''ids'', PList (map PStr ids))]),
                       Sleep (1 / 2), Log INFO ''Deleted data'']))"
  using assms
  by (simp add: insert_data_def delete_def bnd_def InsertParams_ok DeleteParams_ok lift_def
      logger_info_def logger_error_def try_except_def remote_call_def time_sleep_def
      InsertResults_run ret_def raise_def)

theorem insert_delete_sleep_witness:
  "list_collections (mock_remote [PStr ''c'']) []
     = (Inr (PList [PStr ''c'']), [Remote ListCollections, Log INFO ''Available collections''])
   \<and> py_in (PStr ''c'') (PList [PStr ''c'']) = Inr True
   \<and> insert_data (mock_remote [PStr ''c'']) (PStr ''c'')
        (PList (map PDict [[(PStr ''text'', PStr ''information retrieval'')]])) []
     = (Inr (PDict [(PStr ''insert_count'', PInt 1)]),
        [Remote ListCollections, Log INFO ''Available collections'', Log INFO ''Inserting data'',
         Remote (Insert [(''collection_name'', PStr ''c''),
                         (''data'', PList [PDict [(PStr ''text'', PStr ''information retrieval'')]])]),
         Sleep (1 / 2), Log INFO ''Inserted data''])
   \<and> delete (mock_remote [PStr ''c'']) (PList (map PStr [''7''])) (PStr ''c'') []
     = (Inr PNone,
        [Remote ListCollections, Log INFO ''Available collections'', Log INFO ''Deleting data'',
         Remote (Delete [(''collection_name'', PStr ''c''), (''ids'', PList [PStr ''7''])]),
         Sleep (1 / 2), Log INFO ''Deleted data''])"
proof -
  have h1: "list_collections (mock_remote [PStr ''c'']) []
     = (Inr (PList [PStr ''c'']), [Remote ListCollections, Log INFO ''Available collections''])"
    by code_simp
  have h2: "py_in (PStr ''c'') (PList [PStr ''c'']) = Inr True"
    by code_simp
  show ?thesis
    using insert_delete_sleep [OF h1 h2,
        of "[[(PStr ''text'', PStr ''information retrieval'')]]"
           "PDict [(PStr ''insert_count'', PInt 1)]" "[''7'']"
           "PDict [(PStr ''delete_count'', PInt 1)]"] h1 h2
    by (simp add: mock_remote_def)
qed

section \<open>The checks after create and drop\<close>

lemma check_created_run:
  assumes "list_collections R tr = (Inr cs, tr1)" and "py_in name cs = Inr b"
  shows "check_created R name tr =
     (if b then (Inr PNone, tr1 @ [Log INFO ''Created collection''])
      else (Inl (ValueError ''The new collection name is not in the collections list''),
            tr1 @ [Log ERROR ''The new collection name is not in the collections list'']))"
  using assms
  by (simp add: check_created_def bnd_def lift_def logger_info_def logger_error_def ret_def
      raise_def)

lemma check_dropped_run:
  assumes "list_collections R tr = (Inr cs, tr1)" and "py_in name cs = Inr b"
  shows "check_dropped R name tr =
     (if \<not> b then (Inr PNone, tr1 @ [Log INFO ''Dropped collection''])
      else (Inl (ValueError ''The collection name is still in the collections list''),
            tr1 @ [Log ERROR ''The collection name is still in the collections list'']))"
  using assms
  by (simp add: check_dropped_def bnd_def lift_def logger_info_def logger_error_def ret_def
      raise_def)

text \<open>
  Claim C5. Once the remote create (with the schema building before it) has succeeded,
  \<^verbatim>\<open>create_collection\<close> lists the collections again; when that second listing
  returns, it raises the \<^verbatim>\<open>ValueError\<close> of the post-condition exactly when the name
  is not in the new list, and returns normally when it is. \<^verbatim>\<open>drop_collection\<close> does
  the same after a successful remote drop, raising exactly when the name is still in the
  new list.
\<close>

theorem post_check_after_create_and_drop:
  "(list_collections R tr = (Inr cs, tr1) \<and> py_in (PStr n) cs = Inr False
      \<and> list_all (isinstance_of Function) funcs
      \<and> build_and_create R (PStr n) (PList (map PDict fs)) (PList funcs) (PList (map PDict ixs))
            (tr1 @ [Log INFO ''Creating collection'']) = (Inr (), tr2)
      \<and> list_collections R tr2 = (Inr cs', tr3) \<and> py_in (PStr n) cs' = Inr b
    \<longrightarrow> create_collection R (PStr n) (PList (map PDict fs)) (PList funcs) (PList (map PDict ixs)) tr
          = (if b then (Inr PNone, tr3 @ [Log INFO ''Created collection''])
             else (Inl (ValueError ''The new collection name is not in the collections list''),
                   tr3 @ [Log ERROR ''The new collection name is not in the collections list'',
                          Log ERROR ''Problem creating collection''])))
   \<and> (list_collections R tr = (Inr ds, ur1) \<and> py_in (PStr n) ds = Inr True
      \<and> R (ur1 @ [Log INFO ''Dropping collection''])
           (DropCollection [(''collection_name'', PStr n)]) = Inr ack
      \<and> list_collections R (ur1 @ [Log INFO ''Dropping collection'',
                                   Remote (DropCollection [(''collection_name'', PStr n)])])
           = (Inr ds', ur3)
      \<and> py_in (PStr n) ds' = Inr d
    \<longrightarrow> drop_collection R (PStr n) tr
          = (if \<not> d then (Inr PNone, ur3 @ [Log INFO ''Dropped collection''])
             else (Inl (ValueError ''The collection name is still in the collections list''),
                   ur3 @ [Log ERROR ''The collection name is still in the collections list'',
                          Log ERROR ''Problem dropping collection''])))"
proof (intro conjI impI)
  assume a: "list_collections R tr = (Inr cs, tr1) \<and> py_in (PStr n) cs = Inr False
      \<and> list_all (isinstance_of Function) funcs
      \<and> build_and_create R (PStr n) (PList (map PDict fs)) (PList funcs) (PList (map PDict ixs))
            (tr1 @ [Log INFO ''Creating collection'']) = (Inr (), tr2)
      \<and> list_collections R tr2 = (Inr cs', tr3) \<and> py_in (PStr n) cs' = Inr b"
  then have chk: "check_created R (PStr n) tr2 =
     (if b then (Inr PNone, tr3 @ [Log INFO ''Created collection''])
      else (Inl (ValueError ''The new collection name is not in the collections list''),
            tr3 @ [Log ERROR ''The new collection name is not in the collections list'']))"
    by (simp add: check_created_run)
  from a show "create_collection R (PStr n) (PList (map PDict fs)) (PList funcs)
        (PList (map PDict ixs)) tr
          = (if b then (Inr PNone, tr3 @ [Log INFO ''Created collection''])
             else (Inl (ValueError ''The new collection name is not in the collections list''),
                   tr3 @ [Log ERROR ''The new collection name is not in the collections list'',
                          Log ERROR ''Problem creating collection'']))"
    by (simp add: create_collection_def bnd_def CreateCollectionParams_ok lift_def
        logger_info_def logger_error_def try_except_def chk raise_def)
next
  assume a: "list_collections R tr = (Inr ds, ur1) \<and> py_in (PStr n) ds = Inr True
      \<and> R (ur1 @ [Log INFO ''Dropping collection''])
           (DropCollection [(''collection_name'', PStr n)]) = Inr ack
      \<and> list_collections R (ur1 @ [Log INFO ''Dropping collection'',
                                   Remote (DropCollection [(''collection_name'', PStr n)])])
           = (Inr ds', ur3)
      \<and> py_in (PStr n) ds' = Inr d"
  then have chk: "check_dropped R (PStr n)
        (ur1 @ [Log INFO ''Dropping collection'',
                Remote (DropCollection [(''collection_name'', PStr n)])]) =
     (if \<not> d then (Inr PNone, ur3 @ [Log INFO ''Dropped collection''])
      else (Inl (ValueError ''The collection name is still in the collections list''),
            ur3 @ [Log ERROR ''The collection name is still in the collections list'']))"
    by (simp add: check_dropped_run)
  from a show "drop_collection R (PStr n) tr
          = (if \<not> d then (Inr PNone, ur3 @ [Log INFO ''Dropped collection''])
             else (Inl (ValueError ''The collection name is still in the collections list''),
                   ur3 @ [Log ERROR ''The collection name is still in the collections list'',
                          Log ERROR ''Problem dropping collection'']))"
    by (simp add: drop_collection_def bnd_def DropCollectionParams_ok lift_def
        logger_info_def logger_error_def try_except_def remote_call_def chk raise_def)
qed


theorem post_check_after_create_and_drop_witness:
  "create_collection (mock_remote []) (PStr ''_test'')
      (PList (map PDict [[(PStr ''field_name'', PStr ''id'')]])) (PList [func_bm25])
      (PList (map PDict [])) []
     = (Inr PNone,
        [Remote ListCollections, Log INFO ''Available collections'',
         Log INFO ''Creating collection'',
         Remote (CreateSchema [(''enable_dynamic_field'', PBool True)]),
         Log INFO ''Creating field for params'',
         Remote (AddField (PObj CollectionSchema []) [(''field_name'', PStr ''id'')]),
         Log INFO ''Field added to schema'',
         Remote (AddFunction (PObj CollectionSchema []) (PObj Function [])),
         Remote PrepareIndexParams,
         Remote (CreateCollection [(''collection_name'', PStr ''_test''),
                                   (''schema'', PObj CollectionSchema []),
                                   (''index_params'', PObj IndexParams [])]),
         Remote ListCollections, Log INFO ''Available collections'',
         Log INFO ''Created collection''])
   \<and> drop_collection (override ListCollections (Inr (PList [PStr ''_test''])) (mock_remote []))
        (PStr ''_test'') []
     = (Inl (ValueError ''The collection name is still in the collections list''),
        [Remote ListCollections, Log INFO ''Available collections'',
         Log INFO ''Dropping collection'',
         Remote (DropCollection [(''collection_name'', PStr ''_test'')]),
         Remote ListCollections, Log INFO ''Available collections'',
         Log ERROR ''The collection name is still in the collections list'',
         Log ERROR ''Problem dropping collection''])"
proof -
  let ?R = "mock_remote []"
  let ?S = "override ListCollections (Inr (PList [PStr ''_test''])) (mock_remote [])"
  let ?tr1 = "[Remote ListCollections, Log INFO ''Available collections'']"
  let ?tr2 = "[Remote ListCollections, Log INFO ''Available collections'',
         Log INFO ''Creating collection'',
         Remote (CreateSchema [(''enable_dynamic_field'', PBool True)]),
         Log INFO ''Creating field for params'',
         Remote (AddField (PObj CollectionSchema []) [(''field_name'', PStr ''id'')]),
         Log INFO ''Field added to schema'',
         Remote (AddFunction (PObj CollectionSchema []) (PObj Function [])),
         Remote PrepareIndexParams,
         Remote (CreateCollection [(''collection_name'', PStr ''_test''),
                                   (''schema'', PObj CollectionSchema []),
                                   (''index_params'', PObj IndexParams [])])]"
  let ?ur2 = "[Remote ListCollections, Log INFO ''Available collections'',
         Log INFO ''Dropping collection'',
         Remote (DropCollection [(''collection_name'', PStr ''_test'')])]"
  have c1: "list_collections ?R [] = (Inr (PList []), ?tr1)"
    by code_simp
  have c2: "py_in (PStr ''_test'') (PList []) = Inr False"
    by code_simp
  have c3: "list_all (isinstance_of Function) [func_bm25]"
    by code_simp
  have c4: "build_and_create ?R (PStr ''_test'')
      (PList (map PDict [[(PStr ''field_name'', PStr ''id'')]])) (PList [func_bm25])
      (PList (map PDict [])) (?tr1 @ [Log INFO ''Creating collection'']) = (Inr (), ?tr2)"
    by code_simp
  have c5: "list_collections ?R ?tr2
      = (Inr (PList [PStr ''_test'']),
         ?tr2 @ [Remote ListCollections, Log INFO ''Available collections''])"
    by code_simp
  have c6: "py_in (PStr ''_test'') (PList [PStr ''_test'']) = Inr True"
    by code_simp
  have d1: "list_collections ?S [] = (Inr (PList [PStr ''_test'']), ?tr1)"
    by code_simp
  have d3: "?S (?tr1 @ [Log INFO ''Dropping collection''])
      (DropCollection [(''collection_name'', PStr ''_test'')]) = Inr PNone"
    by code_simp
  have d4: "list_collections ?S (?tr1 @ [Log INFO ''Dropping collection'',
         Remote (DropCollection [(''collection_name'', PStr ''_test'')])])
      = (Inr (PList [PStr ''_test'']),
         ?ur2 @ [Remote ListCollections, Log INFO ''Available collections''])"
    by code_simp
  note create = post_check_after_create_and_drop
    [where R = "?R" and tr = "[]" and cs = "PList []" and ?tr1.0 = "?tr1" and n = "''_test''"
       and funcs = "[func_bm25]" and fs = "[[(PStr ''field_name'', PStr ''id'')]]" and ixs = "[]"
       and ?tr2.0 = "?tr2" and cs' = "PList [PStr ''_test'']"
       and ?tr3.0 = "?tr2 @ [Remote ListCollections, Log INFO ''Available collections'']"
       and b = True, THEN conjunct1, rule_format]
  note drop = post_check_after_create_and_drop
    [where R = "?S" and tr = "[]" and ds = "PList [PStr ''_test'']" and ?ur1.0 = "?tr1"
       and n = "''_test''" and ack = PNone and ds' = "PList [PStr ''_test'']"
       and ?ur3.0 = "?ur2 @ [Remote ListCollections, Log INFO ''Available collections'']"
       and d = True, THEN conjunct2, rule_format]
  show ?thesis
    using create drop c1 c2 c3 c4 c5 c6 d1 d3 d4 by simp
qed

section \<open>The constructor\<close>

text \<open>
  Claim C8. Given a handle, the constructor validates that it is a \<^verbatim>\<open>MilvusClient\<close>
  and stores it unchanged, without any remote call; a handle of any other type raises the
  validator's \<^verbatim>\<open>TypeError\<close> after two log lines. Given no handle, it constructs one
  from the address: an exception of the connection (the service is unreachable) is logged
  and raised again, and a handle that connects is stored.
\<close>

theorem constructor_handle:
  "(client \<noteq> PNone \<and> isinstance_of MilvusClient client
      \<longrightarrow> MilvusClientInit R (PStr u) client tr
            = (Inr \<lparr>self_uri = PStr u, self_client = client\<rparr>, tr))
   \<and> (client \<noteq> PNone \<and> \<not> isinstance_of MilvusClient client
      \<longrightarrow> MilvusClientInit R (PStr u) client tr
            = (Inl (TypeError ''The results from the _init_client method should be a MilvusClient''),
               tr @ [Log ERROR ''The results from the _init_client method should be a MilvusClient'',
                     Log INFO ''Problem initializing Milvus client'']))
   \<and> (R (tr @ [Log INFO ''Starting Milvus client on URI'']) (Connect [(''uri'', PStr u)]) = Inl e
      \<longrightarrow> MilvusClientInit R (PStr u) PNone tr
            = (Inl e,
               tr @ [Log INFO ''Starting Milvus client on URI'',
                     Remote (Connect [(''uri'', PStr u)]),
                     Log ERROR ''Problem connecting to Milvus client'',
                     Log INFO ''Problem initializing Milvus client'']))
   \<and> (R (tr @ [Log INFO ''Starting Milvus client on URI'']) (Connect [(''uri'', PStr u)]) = Inr c
        \<and> isinstance_of MilvusClient c
      \<longrightarrow> MilvusClientInit R (PStr u) PNone tr
            = (Inr \<lparr>self_uri = PStr u, self_client = c\<rparr>,
               tr @ [Log INFO ''Starting Milvus client on URI'',
                     Remote (Connect [(''uri'', PStr u)]),
                     Log INFO ''Milvus client connected'']))"
  by (simp add: MilvusClientInit_def init_client_def InitClientParams_def InitClientResults_def
      BaseModel_def core_any_def check_instance_def bnd_def try_except_def remote_call_def
      logger_info_def logger_error_def ret_def raise_def)

theorem constructor_handle_witness:
  "MilvusClientInit (mock_remote []) (PStr ''http://localhost:19530'') (PObj MilvusClient []) []
     = (Inr \<lparr>self_uri = PStr ''http://localhost:19530'', self_client = PObj MilvusClient []\<rparr>, [])
   \<and> MilvusClientInit (mock_remote []) (PStr ''http://localhost:19530'') (PInt 1) []
     = (Inl (TypeError ''The results from the _init_client method should be a MilvusClient''),
        [Log ERROR ''The results from the _init_client method should be a MilvusClient'',
         Log INFO ''Problem initializing Milvus client''])
   \<and> MilvusClientInit
        (override (Connect [(''uri'', PStr ''http://localhost:19530'')])
           (Inl (MilvusException ''unreachable'')) (mock_remote []))
        (PStr ''http://localhost:19530'') PNone []
     = (Inl (MilvusException ''unreachable''),
        [Log INFO ''Starting Milvus client on URI'',
         Remote (Connect [(''uri'', PStr ''http://localhost:19530'')]),
         Log ERROR ''Problem connecting to Milvus client'',
         Log INFO ''Problem initializing Milvus client''])
   \<and> MilvusClientInit (mock_remote []) (PStr ''http://localhost:19530'') PNone []
     = (Inr \<lparr>self_uri = PStr ''http://localhost:19530'', self_client = PObj MilvusClient []\<rparr>,
        [Log INFO ''Starting Milvus client on URI'',
         Remote (Connect [(''uri'', PStr ''http://localhost:19530'')]),
         Log INFO ''Milvus client connected''])"
proof -
  let ?u = "''http://localhost:19530''"
  let ?U = "override (Connect [(''uri'', PStr ?u)]) (Inl (MilvusException ''unreachable''))
              (mock_remote [])"
  have a: "PObj MilvusClient [] \<noteq> PNone \<and> isinstance_of MilvusClient (PObj MilvusClient [])"
    by simp
  have b: "PInt 1 \<noteq> PNone \<and> \<not> isinstance_of MilvusClient (PInt 1)"
    by simp
  have c: "?U ([] @ [Log INFO ''Starting Milvus client on URI'']) (Connect [(''uri'', PStr ?u)])
             = Inl (MilvusException ''unreachable'')"
    by (simp add: override_def)
  have d: "mock_remote [] ([] @ [Log INFO ''Starting Milvus client on URI''])
             (Connect [(''uri'', PStr ?u)]) = Inr (PObj MilvusClient [])
           \<and> isinstance_of MilvusClient (PObj MilvusClient [])"
    by (simp add: mock_remote_def)
  show ?thesis
    using constructor_handle [of "PObj MilvusClient []" "mock_remote []" ?u "[]",
              THEN conjunct1, rule_format, OF a]
          constructor_handle [of "PInt 1" "mock_remote []" ?u "[]",
              THEN conjunct2, THEN conjunct1, rule_format, OF b]
          constructor_handle [of _ ?U ?u "[]" "MilvusException ''unreachable''",
              THEN conjunct2, THEN conjunct2, THEN conjunct1, rule_format, OF c]
          constructor_handle [of _ "mock_remote []" ?u "[]" _ "PObj MilvusClient []",
              THEN conjunct2, THEN conjunct2, THEN conjunct2, rule_format, OF d]
    by simp
qed

section \<open>The schema builder\<close>


























section \<open>Arguments and results that are not of the declared type\<close>

text \<open>
  What holds of every public operation: when its model rejects the arguments, the
  operation raises that type-validation error and makes no remote call, not even the
  listing of the existence check.
\<close>

lemma model_Inl:
  "BaseModel fs tr = (Inl e, tr')
     \<Longrightarrow> type_validation_error e \<and> remote_calls tr' = remote_calls tr"
  by (drule BaseModel_trace) auto

lemma rejected_create_collection:
  assumes "CreateCollectionParams name fl fn il tr = (Inl e, tr')"
  shows "create_collection R name fl fn il tr = (Inl e, tr')
       \<and> type_validation_error e \<and> remote_calls tr' = remote_calls tr"
proof -
  from assms have "type_validation_error e \<and> remote_calls tr' = remote_calls tr"
    unfolding CreateCollectionParams_def by (rule model_Inl)
  with assms show ?thesis by (simp add: create_collection_def bnd_def)
qed

lemma rejected_drop_collection:
  assumes "DropCollectionParams name tr = (Inl e, tr')"
  shows "drop_collection R name tr = (Inl e, tr')
       \<and> type_validation_error e \<and> remote_calls tr' = remote_calls tr"
proof -
  from assms have "type_validation_error e \<and> remote_calls tr' = remote_calls tr"
    unfolding DropCollectionParams_def by (rule model_Inl)
  with assms show ?thesis by (simp add: drop_collection_def bnd_def)
qed

lemma rejected_insert:
  assumes "InsertParams name data tr = (Inl e, tr')"
  shows "insert_data R name data tr = (Inl e, tr')
       \<and> type_validation_error e \<and> remote_calls tr' = remote_calls tr"
proof -
  from assms have "type_validation_error e \<and> remote_calls tr' = remote_calls tr"
    unfolding InsertParams_def by (rule model_Inl)
  with assms show ?thesis by (simp add: insert_data_def bnd_def)
qed

lemma rejected_delete:
  assumes "DeleteParams name ids tr = (Inl e, tr')"
  shows "delete R ids name tr = (Inl e, tr')
       \<and> type_validation_error e \<and> remote_calls tr' = remote_calls tr"
proof -
  from assms have "type_validation_error e \<and> remote_calls tr' = remote_calls tr"
    unfolding DeleteParams_def by (rule model_Inl)
  with assms show ?thesis by (simp add: delete_def bnd_def)
qed

lemma rejected_full_text_search:
  assumes "FullTextSearchParams lax_int name query_list limit tr = (Inl e, tr')"
  shows "full_text_search R lax_int name query_list limit tr = (Inl e, tr')
       \<and> type_validation_error e \<and> remote_calls tr' = remote_calls tr"
proof -
  from assms have "type_validation_error e \<and> remote_calls tr' = remote_calls tr"
    unfolding FullTextSearchParams_def by (rule model_Inl)
  with assms show ?thesis by (simp add: full_text_search_def bnd_def)
qed

text \<open>
  What does not hold: pydantic validates in lax mode and hands the validators of the source
  the value it has converted, while the facade goes on with the value it was given. A tuple
  where a list is declared, or bytes where a string is declared, pass validation, and the
  remote service is called with them.

  Claim C1 at a failing input: \<^verbatim>\<open>insert\<close> with a tuple of records raises nothing and
  calls the remote listing and the remote insert.
\<close>

theorem insert_accepts_tuple:
  "insert_data (mock_remote [PStr ''collection_ex'']) (PStr ''collection_ex'')
      (PTuple [PDict [(PStr ''text'', PStr ''information retrieval'')]]) []
     = (Inr (PDict [(PStr ''insert_count'', PInt 1)]),
        [Remote ListCollections, Log INFO ''Available collections'', Log INFO ''Inserting data'',
         Remote (Insert [(''collection_name'', PStr ''collection_ex''),
                         (''data'', PTuple [PDict [(PStr ''text'', PStr ''information retrieval'')]])]),
         Sleep (1 / 2), Log INFO ''Inserted data''])"
  by code_simp

text \<open>
  Claim C9 at a failing input: a remote list that holds a bytes object passes the validator
  of \<^verbatim>\<open>list_collections\<close>, which returns it, so the returned list holds an item
  that is not a string.
\<close>

theorem list_collections_returns_bytes:
  "list_collections (override ListCollections (Inr (PList [PBytes ''collection_ex'']))
      (mock_remote [])) []
     = (Inr (PList [PBytes ''collection_ex'']),
        [Remote ListCollections, Log INFO ''Available collections''])"
  by code_simp

text \<open>
  Claim C10 at a failing input: \<^verbatim>\<open>delete\<close> with an id that is a bytes object raises
  nothing and calls the remote delete with that id.
\<close>

theorem delete_accepts_bytes_id:
  "delete (mock_remote [PStr ''collection_ex'']) (PList [PBytes ''data-id''])
      (PStr ''collection_ex'') []
     = (Inr PNone,
        [Remote ListCollections, Log INFO ''Available collections'', Log INFO ''Deleting data'',
         Remote (Delete [(''collection_name'', PStr ''collection_ex''),
                         (''ids'', PList [PBytes ''data-id''])]),
         Sleep (1 / 2), Log INFO ''Deleted data''])"
  by code_simp

end
